theory Spec2Isabelle
  imports Complex_Main
begin

section \<open>The stop-line scene module (scene.cpp)\<close>

text \<open>
  A shallow embedding of \<^verbatim>\<open>StopLineModule\<close> of
  \<^verbatim>\<open>autoware_behavior_velocity_stop_line_module/src/scene.cpp\<close>.

  Conventions of the embedding:
  \<^item> a C++ \<^verbatim>\<open>double\<close> is a \<^typ>\<open>real\<close>; infinities and NaN are not modelled. The sum
    and the difference that \<^verbatim>\<open>getEgoAndStopPoint\<close> computes for the stop point are
    rounded as the machine rounds them; the distance \<^verbatim>\<open>*stop_point - ego_s\<close>, the
    midpoint of the stop line and \<^verbatim>\<open>seconds()\<close> are taken exact;
  \<^item> an \<^verbatim>\<open>rclcpp::Time\<close> is its count of nanoseconds, an \<^typ>\<open>int\<close>; the difference
    of two times is a duration in nanoseconds and \<^verbatim>\<open>seconds()\<close> divides it by 10^9.
    Both times of the module come from its own clock, and the bound of the 64-bit
    counter is not modelled;
  \<^item> a \<^verbatim>\<open>std::optional\<close> is an \<^typ>\<open>'a option\<close>; dereferencing an empty optional is
    an error value of the model;
  \<^item> the member variables of the module are the fields of a record that every member
    function takes and returns; the pointers \<^verbatim>\<open>path\<close> and \<^verbatim>\<open>stop_reason\<close> are values
    passed in and returned;
  \<^item> the log is the list of messages a call emits.
\<close>

subsection \<open>Messages and geometry\<close>

text \<open>The coordinates are named \<open>px\<close>, \<open>py\<close>, \<open>pz\<close> (the source's \<open>x\<close>, \<open>y\<close>, \<open>z\<close>).\<close>

record Point =
  px :: real
  py :: real
  pz :: real

record Quaternion =
  qx :: real
  qy :: real
  qz :: real
  qw :: real

record Pose =
  position :: Point
  orientation :: Quaternion

record PathPoint =
  pose :: Pose
  longitudinal_velocity_mps :: real

record PathPointWithLaneId =
  point :: PathPoint
  lane_ids :: "int list"

record PathWithLaneId =
  points :: "PathPointWithLaneId list"

type_synonym Point2d = "real \<times> real"

type_synonym LineString2d = "Point2d \<times> Point2d"

text \<open>A \<^verbatim>\<open>lanelet::ConstLineString3d\<close> stop line: its points \<open>[0]\<close> and \<open>[1]\<close>.\<close>

type_synonym ConstLineString3d = "Point \<times> Point"

record StopFactor =
  stop_factor_pose :: Pose
  stop_factor_points :: "Point list"

type_synonym StopReason = "StopFactor list"

type_synonym Time = int

definition seconds :: "int \<Rightarrow> real" where
  "seconds ns = real_of_int ns / 1000000000"

datatype LogLevel = INFO | WARN

type_synonym Log = "(LogLevel \<times> string) list"

subsection \<open>Double-precision arithmetic\<close>

text \<open>
  The sum and the difference of two doubles, as IEEE 754 binary64 computes them: the exact
  result rounded to the nearest double, a tie going to the double with the even
  significand. A double has a significand of 53 bits; in the binade of exponent \<open>e\<close>
  (from \<open>2^e\<close> up to \<open>2^(e+1)\<close>) the doubles are the multiples of \<open>2^(e-52)\<close>, and below
  \<open>2^-1022\<close> they are the multiples of \<open>2^-1074\<close>. The operands and the result are finite:
  overflow to an infinity and NaN are not modelled.
\<close>

definition round_half_even :: "real \<Rightarrow> int" where
  "round_half_even x =
     (let f = \<lfloor>x\<rfloor>
      in if x - of_int f < 1 / 2 then f
         else if x - of_int f > 1 / 2 then f + 1
         else if even f then f else f + 1)"

definition double_exponent :: "real \<Rightarrow> int" where
  "double_exponent x = max \<lfloor>log 2 \<bar>x\<bar>\<rfloor> (- 1022)"

definition round_double :: "real \<Rightarrow> real" where
  "round_double x =
     (if x = 0 then 0
      else of_int (round_half_even (x / 2 powi (double_exponent x - 52)))
             * 2 powi (double_exponent x - 52))"

definition double_add :: "real \<Rightarrow> real \<Rightarrow> real" where
  "double_add a b = round_double (a + b)"

definition double_sub :: "real \<Rightarrow> real \<Rightarrow> real" where
  "double_sub a b = round_double (a - b)"

subsection \<open>The trajectory library\<close>

text \<open>
  Modelled from the spec: the class \<^verbatim>\<open>trajectory::Trajectory\<close> and its builder, which
  scene.cpp calls and whose code is in another package. Section 4.1 of the specification
  gives its contract. A trajectory keeps the path points and the arc-length of each
  (\<open>bases\<close>).
\<close>

record Trajectory =
  bases :: "real list"
  tpoints :: "PathPointWithLaneId list"

text \<open>
  The operations whose result the specification describes only geometrically are
  parameters of the model: the length of the segment between two consecutive path
  positions, \<^verbatim>\<open>closest\<close>, \<^verbatim>\<open>crossed\<close> and \<^verbatim>\<open>compute\<close> of the trajectory, and
  \<^verbatim>\<open>planning_utils::extendLine\<close>.
\<close>

record Geometry =
  segment_length :: "Point \<Rightarrow> Point \<Rightarrow> real"
  closest :: "Trajectory \<Rightarrow> Point \<Rightarrow> real"
  crossed :: "Trajectory \<Rightarrow> Point2d \<Rightarrow> Point2d \<Rightarrow> real option"
  compute :: "Trajectory \<Rightarrow> real \<Rightarrow> PathPointWithLaneId"
  extendLine :: "Point \<Rightarrow> Point \<Rightarrow> real \<Rightarrow> LineString2d"

text \<open>The arc-length of each point: the sum of the segment lengths before it.\<close>

fun arc_lengths :: "Geometry \<Rightarrow> real \<Rightarrow> PathPointWithLaneId list \<Rightarrow> real list" where
  "arc_lengths g s [] = []"
| "arc_lengths g s [p] = [s]"
| "arc_lengths g s (p # q # ps) =
     s # arc_lengths g
           (s + segment_length g (position (pose (point p))) (position (pose (point q))))
           (q # ps)"

text \<open>
  Modelled from the spec: \<^verbatim>\<open>build(points)\<close> is a trajectory, or a failure if there are
  fewer than 2 points or the arc-length is not strictly increasing.
\<close>

definition build :: "Geometry \<Rightarrow> PathPointWithLaneId list \<Rightarrow> Trajectory option" where
  "build g ps =
     (if length ps < 2 then None
      else if \<not> sorted_wrt (<) (arc_lengths g 0 ps) then None
      else Some \<lparr>bases = arc_lengths g 0 ps, tpoints = ps\<rparr>)"

text \<open>Modelled from the spec: \<^verbatim>\<open>length()\<close>, the total length of the trajectory.\<close>

definition trajectory_length :: "Trajectory \<Rightarrow> real" where
  "trajectory_length t = (case bases t of [] \<Rightarrow> 0 | b # bs \<Rightarrow> last (b # bs))"

definition set_velocity :: "real \<Rightarrow> PathPointWithLaneId \<Rightarrow> PathPointWithLaneId" where
  "set_velocity v p = p\<lparr>point := (point p)\<lparr>longitudinal_velocity_mps := v\<rparr>\<rparr>"

text \<open>
  Modelled from the spec: \<^verbatim>\<open>longitudinal_velocity_mps.range(from_s, to_s).set(v)\<close>
  sets the stored velocity to \<open>v\<close> for every trajectory point whose arc-length lies in
  \<open>[from_s, to_s]\<close>, with no effect outside that range.
\<close>

definition range_set :: "Trajectory \<Rightarrow> real \<Rightarrow> real \<Rightarrow> real \<Rightarrow> Trajectory" where
  "range_set t from_s to_s v =
     t\<lparr>tpoints :=
         map (\<lambda>(s, p). if from_s \<le> s \<and> s \<le> to_s then set_velocity v p else p)
           (zip (bases t) (tpoints t))\<rparr>"

text \<open>
  Modelled from the spec: \<^verbatim>\<open>restore()\<close> is the point sequence with all mutations, same
  point count and order as the input.
\<close>

definition restore :: "Trajectory \<Rightarrow> PathPointWithLaneId list" where
  "restore t = tpoints t"

subsection \<open>The module\<close>

datatype State = APPROACH | STOPPED | START

record PlannerParam =
  stop_margin :: real
  stop_duration_sec :: real
  hold_stop_margin_distance :: real

text \<open>
  The fields of \<^verbatim>\<open>planner_data_\<close> that scene.cpp reads:
  \<^verbatim>\<open>current_odometry->pose\<close>, \<^verbatim>\<open>vehicle_info_.max_longitudinal_offset_m\<close>,
  \<^verbatim>\<open>stop_line_extend_length\<close> and the result of \<^verbatim>\<open>isVehicleStopped()\<close>.
\<close>

record PlannerData =
  current_odometry_pose :: Pose
  max_longitudinal_offset_m :: real
  stop_line_extend_length :: real
  isVehicleStopped :: bool

datatype PlanningBehavior = STOP_SIGN

datatype VelocityFactorStatus = VF_APPROACHING | VF_STOPPED

text \<open>
  Modelled from the spec: \<^verbatim>\<open>VelocityFactorInterface\<close>, which holds the behavior set by
  \<^verbatim>\<open>init\<close> and the last report \<open>(distance, category)\<close> written by \<^verbatim>\<open>set\<close>.
\<close>

record VelocityFactorInterface =
  behavior :: "PlanningBehavior option"
  report :: "(real \<times> VelocityFactorStatus) option"

definition velocity_factor_init :: "VelocityFactorInterface \<Rightarrow> PlanningBehavior \<Rightarrow> VelocityFactorInterface" where
  "velocity_factor_init vf b = vf\<lparr>behavior := Some b\<rparr>"

definition velocity_factor_set ::
  "VelocityFactorInterface \<Rightarrow> real \<Rightarrow> VelocityFactorStatus \<Rightarrow> VelocityFactorInterface" where
  "velocity_factor_set vf d st = vf\<lparr>report := Some (d, st)\<rparr>"

record DebugData =
  base_link2front :: real
  stop_pose :: "Pose option"

record StopLineModule =
  module_id :: int
  stop_line :: ConstLineString3d
  planner_param :: PlannerParam
  state :: State
  stopped_time :: "Time option"
  velocity_factor :: VelocityFactorInterface
  debug_data :: DebugData

datatype error = EmptyOptionalAccess

text \<open>\<^verbatim>\<open>getCenterOfStopLine\<close>\<close>

definition getCenterOfStopLine :: "ConstLineString3d \<Rightarrow> Point" where
  "getCenterOfStopLine sl =
     \<lparr>px = (px (fst sl) + px (snd sl)) / 2,
      py = (py (fst sl) + py (snd sl)) / 2,
      pz = (pz (fst sl) + pz (snd sl)) / 2\<rparr>"

text \<open>
  The constructor. \<^verbatim>\<open>stopped_time_\<close> is not in the initialiser list: a
  default-constructed \<^verbatim>\<open>std::optional\<close> is empty. \<^verbatim>\<open>debug_data_()\<close> is
  value-initialised.
\<close>

definition StopLineModule_new :: "int \<Rightarrow> ConstLineString3d \<Rightarrow> PlannerParam \<Rightarrow> StopLineModule" where
  "StopLineModule_new mid sl pp =
     \<lparr>module_id = mid,
      stop_line = sl,
      planner_param = pp,
      state = APPROACH,
      stopped_time = None,
      velocity_factor = velocity_factor_init \<lparr>behavior = None, report = None\<rparr> STOP_SIGN,
      debug_data = \<lparr>base_link2front = 0, stop_pose = None\<rparr>\<rparr>"

text \<open>\<^verbatim>\<open>StopLineModule::getEgoAndStopPoint\<close>\<close>

definition getEgoAndStopPoint ::
  "Geometry \<Rightarrow> StopLineModule \<Rightarrow> PlannerData \<Rightarrow> Trajectory \<Rightarrow> Pose \<Rightarrow> State \<Rightarrow> real \<times> real option" where
  "getEgoAndStopPoint g m pd trajectory ego_pose st =
     (let ego_s = closest g trajectory (position ego_pose) in
      case st of
        APPROACH \<Rightarrow>
          (let base_link2front = max_longitudinal_offset_m pd;
               line = extendLine g (fst (stop_line m)) (snd (stop_line m))
                        (stop_line_extend_length pd)
           in case crossed g trajectory (fst line) (snd line) of
                None \<Rightarrow> (ego_s, None)
              | Some trajectory_stop_line_intersection \<Rightarrow>
                  (let stop_point_s =
                         double_sub trajectory_stop_line_intersection
                           (double_add base_link2front (stop_margin (planner_param m)))
                   in if stop_point_s < 0 then (ego_s, None) else (ego_s, Some stop_point_s)))
      | STOPPED \<Rightarrow> (ego_s, Some ego_s)
      | START \<Rightarrow> (ego_s, None))"

text \<open>
  \<^verbatim>\<open>StopLineModule::updateStateAndStoppedTime\<close>. The result is the new state, the new
  stopped time and the messages logged. In the branch of \<open>STOPPED\<close> the source
  dereferences \<^verbatim>\<open>stopped_time\<close> without a check.
\<close>

fun updateStateAndStoppedTime ::
  "PlannerParam \<Rightarrow> State \<Rightarrow> Time option \<Rightarrow> Time \<Rightarrow> real \<Rightarrow> bool
     \<Rightarrow> error + (State \<times> Time option \<times> Log)" where
  "updateStateAndStoppedTime pp APPROACH stopped now distance_to_stop_point is_vehicle_stopped =
     (if distance_to_stop_point < hold_stop_margin_distance pp \<and> is_vehicle_stopped
      then Inr (STOPPED, Some now,
                (INFO, ''APPROACH -> STOPPED'') #
                (if distance_to_stop_point < 0
                 then [(WARN, ''Vehicle cannot stop before stop line'')] else []))
      else Inr (APPROACH, stopped, []))"
| "updateStateAndStoppedTime pp STOPPED stopped now distance_to_stop_point is_vehicle_stopped =
     (case stopped of
        None \<Rightarrow> Inl EmptyOptionalAccess
      | Some t0 \<Rightarrow>
          (let stop_duration = seconds (now - t0)
           in if stop_duration > stop_duration_sec pp
              then Inr (START, None, [(INFO, ''STOPPED -> START'')])
              else Inr (STOPPED, stopped, [])))"
| "updateStateAndStoppedTime pp START stopped now distance_to_stop_point is_vehicle_stopped =
     Inr (START, stopped, [])"

text \<open>\<^verbatim>\<open>StopLineModule::updateVelocityFactor\<close>\<close>

fun updateVelocityFactor ::
  "VelocityFactorInterface \<Rightarrow> State \<Rightarrow> real \<Rightarrow> VelocityFactorInterface" where
  "updateVelocityFactor vf APPROACH distance_to_stop_point =
     velocity_factor_set vf distance_to_stop_point VF_APPROACHING"
| "updateVelocityFactor vf STOPPED distance_to_stop_point =
     velocity_factor_set vf distance_to_stop_point VF_STOPPED"
| "updateVelocityFactor vf START distance_to_stop_point = vf"

text \<open>
  \<^verbatim>\<open>StopLineModule::updateStopReason\<close>; \<^verbatim>\<open>planning_utils::appendStopReason\<close> adds the
  stop factor to the collection.
\<close>

definition updateStopReason :: "StopLineModule \<Rightarrow> StopReason \<Rightarrow> Pose \<Rightarrow> StopReason" where
  "updateStopReason m stop_reason sp =
     stop_reason @
       [\<lparr>stop_factor_pose = sp, stop_factor_points = [getCenterOfStopLine (stop_line m)]\<rparr>]"

text \<open>\<^verbatim>\<open>StopLineModule::updateDebugData\<close>\<close>

definition updateDebugData :: "PlannerData \<Rightarrow> DebugData \<Rightarrow> Pose \<Rightarrow> State \<Rightarrow> DebugData" where
  "updateDebugData pd dd sp st =
     (let dd1 = dd\<lparr>base_link2front := max_longitudinal_offset_m pd\<rparr>;
          dd2 = dd1\<lparr>stop_pose := Some sp\<rparr>
      in if st = START then dd2\<lparr>stop_pose := None\<rparr> else dd2)"

text \<open>
  What one call of \<^verbatim>\<open>modifyPathVelocity\<close> leaves behind: the value returned, the module
  after the call, the path and the stop reason behind the two pointers, and the log.
\<close>

record CycleResult =
  ret :: bool
  self :: StopLineModule
  path :: PathWithLaneId
  stop_reason :: StopReason
  logged :: Log

text \<open>
  \<^verbatim>\<open>StopLineModule::modifyPathVelocity\<close>. \<open>now\<close> is the value of \<^verbatim>\<open>clock_->now()\<close>.
  After \<^verbatim>\<open>updateStateAndStoppedTime\<close> the member \<^verbatim>\<open>state_\<close> holds the new state, and
  that is what \<^verbatim>\<open>updateDebugData\<close> receives.
\<close>

definition modifyPathVelocity ::
  "Geometry \<Rightarrow> StopLineModule \<Rightarrow> PlannerData \<Rightarrow> Time \<Rightarrow> PathWithLaneId \<Rightarrow> StopReason
     \<Rightarrow> error + CycleResult" where
  "modifyPathVelocity g m pd now pth sr =
     (case build g (points pth) of
        None \<Rightarrow> Inr \<lparr>ret = True, self = m, path = pth, stop_reason = sr, logged = []\<rparr>
      | Some trajectory \<Rightarrow>
          (case getEgoAndStopPoint g m pd trajectory (current_odometry_pose pd) (state m) of
             (ego_s, None) \<Rightarrow>
               Inr \<lparr>ret = True, self = m, path = pth, stop_reason = sr, logged = []\<rparr>
           | (ego_s, Some stop_point) \<Rightarrow>
               (let trajectory1 =
                      range_set trajectory stop_point (trajectory_length trajectory) 0;
                    pth1 = pth\<lparr>points := restore trajectory1\<rparr>;
                    vf = updateVelocityFactor (velocity_factor m) (state m) (stop_point - ego_s)
                in case updateStateAndStoppedTime (planner_param m) (state m) (stopped_time m)
                          now (stop_point - ego_s) (isVehicleStopped pd) of
                     Inl e \<Rightarrow> Inl e
                   | Inr (st1, stopped1, lg) \<Rightarrow>
                       (let sp = pose (point (compute g trajectory1 stop_point));
                            sr1 = updateStopReason m sr sp;
                            dd = updateDebugData pd (debug_data m) sp st1
                        in Inr \<lparr>ret = True,
                                self = m\<lparr>state := st1, stopped_time := stopped1,
                                         velocity_factor := vf, debug_data := dd\<rparr>,
                                path = pth1, stop_reason = sr1, logged = lg\<rparr>))))"

subsection \<open>Planning cycles\<close>

text \<open>
  The scheduler calls the module once per planning cycle with fresh planner data, clock
  value, path and stop-reason collection. A run is the sequence of these calls; it
  stops at the first error.
\<close>

record CycleInput =
  planner_data :: PlannerData
  clock_now :: Time
  input_path :: PathWithLaneId
  input_stop_reason :: StopReason

definition cycle :: "Geometry \<Rightarrow> StopLineModule \<Rightarrow> CycleInput \<Rightarrow> error + CycleResult" where
  "cycle g m i =
     modifyPathVelocity g m (planner_data i) (clock_now i) (input_path i) (input_stop_reason i)"

fun run :: "Geometry \<Rightarrow> StopLineModule \<Rightarrow> CycleInput list \<Rightarrow> error + StopLineModule" where
  "run g m [] = Inr m"
| "run g m (i # ins) =
     (case cycle g m i of
        Inl e \<Rightarrow> Inl e
      | Inr r \<Rightarrow> run g (self r) ins)"

subsection \<open>Test inputs\<close>

text \<open>
  Concrete inputs on which the model is evaluated: a path of four points along the x
  axis, one metre apart, every point at 5 m/s; a geometry in which the length of a
  segment along that axis is the difference of the coordinates, the ego is closest to
  arc-length \<open>ego_s\<close>, the stop line crosses the path at \<open>crossing\<close> and the pose at
  arc-length \<open>s\<close> is the point \<open>(s, 0, 0)\<close>.
\<close>

definition test_pose :: "real \<Rightarrow> Pose" where
  "test_pose s =
     \<lparr>position = \<lparr>px = s, py = 0, pz = 0\<rparr>,
      orientation = \<lparr>qx = 0, qy = 0, qz = 0, qw = 1\<rparr>\<rparr>"

definition test_point :: "real \<Rightarrow> real \<Rightarrow> PathPointWithLaneId" where
  "test_point s v =
     \<lparr>point = \<lparr>pose = test_pose s, longitudinal_velocity_mps = v\<rparr>, lane_ids = [1]\<rparr>"

definition test_path :: PathWithLaneId where
  "test_path = \<lparr>points = [test_point 0 5, test_point 1 5, test_point 2 5, test_point 3 5]\<rparr>"

definition test_geometry :: "real \<Rightarrow> real option \<Rightarrow> Geometry" where
  "test_geometry ego_s crossing =
     \<lparr>segment_length = (\<lambda>p q. \<bar>px q - px p\<bar>),
      closest = (\<lambda>t p. ego_s),
      crossed = (\<lambda>t a b. crossing),
      compute = (\<lambda>t s. test_point s 0),
      extendLine = (\<lambda>a b l. ((px a, py a), (px b, py b)))\<rparr>"

definition test_param :: PlannerParam where
  "test_param = \<lparr>stop_margin = 2, stop_duration_sec = 2, hold_stop_margin_distance = 1\<rparr>"

definition test_planner_data :: "bool \<Rightarrow> PlannerData" where
  "test_planner_data stopped =
     \<lparr>current_odometry_pose = test_pose 0,
      max_longitudinal_offset_m = 1,
      stop_line_extend_length = 0,
      isVehicleStopped = stopped\<rparr>"

definition test_module :: StopLineModule where
  "test_module =
     StopLineModule_new 1 (\<lparr>px = 2, py = - 1, pz = 0\<rparr>, \<lparr>px = 2, py = 1, pz = 0\<rparr>) test_param"

text \<open>
  The test module with a stop margin of \<open>2^-53\<close>, half the spacing of the doubles from 1
  to 2.
\<close>

definition test_module_small_margin :: StopLineModule where
  "test_module_small_margin =
     test_module\<lparr>planner_param := test_param\<lparr>stop_margin := 1 / 2 ^ 53\<rparr>\<rparr>"

text \<open>
  The module after a first cycle at time 0 in which the ego, at arc-length 3/2, has
  stopped half a metre before the stop point at arc-length 2.
\<close>

definition test_module_stopped :: StopLineModule where
  "test_module_stopped =
     test_module
       \<lparr>state := STOPPED,
        stopped_time := Some 0,
        velocity_factor := \<lparr>behavior = Some STOP_SIGN, report = Some (1 / 2, VF_APPROACHING)\<rparr>,
        debug_data := \<lparr>base_link2front = 1, stop_pose = Some (test_pose 2)\<rparr>\<rparr>"

definition test_input :: "bool \<Rightarrow> Time \<Rightarrow> CycleInput" where
  "test_input stopped now =
     \<lparr>planner_data = test_planner_data stopped, clock_now = now,
      input_path = test_path, input_stop_reason = []\<rparr>"

text \<open>
  What the cycle of the held module leaves behind with the ego at arc-length 3/2: at 1 s,
  when it keeps holding, and at 2.5 s, when it releases.
\<close>

definition test_result_hold :: CycleResult where
  "test_result_hold =
     \<lparr>ret = True,
      self = test_module_stopped
               \<lparr>velocity_factor := \<lparr>behavior = Some STOP_SIGN, report = Some (0, VF_STOPPED)\<rparr>,
                debug_data := \<lparr>base_link2front = 1, stop_pose = Some (test_pose (3 / 2))\<rparr>\<rparr>,
      path = \<lparr>points = [test_point 0 5, test_point 1 5, test_point 2 0, test_point 3 0]\<rparr>,
      stop_reason =
        [\<lparr>stop_factor_pose = test_pose (3 / 2),
          stop_factor_points = [\<lparr>px = 2, py = 0, pz = 0\<rparr>]\<rparr>],
      logged = []\<rparr>"

definition test_result_release :: CycleResult where
  "test_result_release =
     \<lparr>ret = True,
      self = test_module_stopped
               \<lparr>state := START, stopped_time := None,
                velocity_factor := \<lparr>behavior = Some STOP_SIGN, report = Some (0, VF_STOPPED)\<rparr>,
                debug_data := \<lparr>base_link2front = 1, stop_pose = None\<rparr>\<rparr>,
      path = \<lparr>points = [test_point 0 5, test_point 1 5, test_point 2 0, test_point 3 0]\<rparr>,
      stop_reason =
        [\<lparr>stop_factor_pose = test_pose (3 / 2),
          stop_factor_points = [\<lparr>px = 2, py = 0, pz = 0\<rparr>]\<rparr>],
      logged = [(INFO, ''STOPPED -> START'')]\<rparr>"

section \<open>Properties\<close>

subsection \<open>Rounding to a double\<close>

text \<open>
  Within a binade the rounding is the rounding of the significand to an integer; an
  integer significand stays as it is.
\<close>

lemma round_half_even_of_int: "round_half_even (of_int n) = n"
  by (simp add: round_half_even_def)

lemma double_exponent_binade:
  assumes "2 powi e \<le> \<bar>x\<bar>" and "\<bar>x\<bar> < 2 powi (e + 1)" and "- 1022 \<le> e"
  shows "double_exponent x = e"
proof -
  have "(0::real) < 2 powi e"
    by simp
  with assms(1) have pos: "0 < \<bar>x\<bar>"
    by linarith
  have p1: "(2::real) powr real_of_int e = 2 powi e"
    by (simp add: powr_real_of_int')
  have "(2::real) powr real_of_int (e + 1) = 2 powi (e + 1)"
    by (rule powr_real_of_int') simp_all
  then have p2: "(2::real) powr (real_of_int e + 1) = 2 powi (e + 1)"
    by (simp add: add.commute)
  have "\<lfloor>log 2 \<bar>x\<bar>\<rfloor> = e"
    using assms(1) assms(2) pos
    by (simp add: floor_log_eq_powr_iff p1 p2)
  with assms(3) show ?thesis
    by (simp add: double_exponent_def)
qed

lemma round_double_binade:
  assumes "2 powi e \<le> \<bar>x\<bar>" and "\<bar>x\<bar> < 2 powi (e + 1)" and "- 1022 \<le> e"
  shows "round_double x
           = of_int (round_half_even (x / 2 powi (e - 52))) * 2 powi (e - 52)"
proof -
  have "(0::real) < 2 powi e"
    by simp
  with assms(1) have "0 < \<bar>x\<bar>"
    by linarith
  then have "x \<noteq> 0"
    by simp
  then show ?thesis
    by (simp add: round_double_def double_exponent_binade [OF assms])
qed

lemma round_double_0: "round_double 0 = 0"
  by (simp add: round_double_def)

subsection \<open>One call of modifyPathVelocity, case by case\<close>

lemma modify_build_fails:
  "build g (points pth) = None \<Longrightarrow>
   modifyPathVelocity g m pd now pth sr =
     Inr \<lparr>ret = True, self = m, path = pth, stop_reason = sr, logged = []\<rparr>"
  by (simp add: modifyPathVelocity_def)

lemma modify_no_stop_point:
  "build g (points pth) = Some t \<Longrightarrow>
   getEgoAndStopPoint g m pd t (current_odometry_pose pd) (state m) = (e, None) \<Longrightarrow>
   modifyPathVelocity g m pd now pth sr =
     Inr \<lparr>ret = True, self = m, path = pth, stop_reason = sr, logged = []\<rparr>"
  by (simp add: modifyPathVelocity_def)

lemma modify_stop_point:
  "build g (points pth) = Some t \<Longrightarrow>
   getEgoAndStopPoint g m pd t (current_odometry_pose pd) (state m) = (e, Some s) \<Longrightarrow>
   updateStateAndStoppedTime (planner_param m) (state m) (stopped_time m) now (s - e)
     (isVehicleStopped pd) = Inr (st1, stopped1, lg) \<Longrightarrow>
   modifyPathVelocity g m pd now pth sr =
     Inr \<lparr>ret = True,
          self = m\<lparr>state := st1, stopped_time := stopped1,
                   velocity_factor := updateVelocityFactor (velocity_factor m) (state m) (s - e),
                   debug_data :=
                     updateDebugData pd (debug_data m)
                       (pose (point (compute g (range_set t s (trajectory_length t) 0) s))) st1\<rparr>,
          path = pth\<lparr>points := restore (range_set t s (trajectory_length t) 0)\<rparr>,
          stop_reason =
            updateStopReason m sr
              (pose (point (compute g (range_set t s (trajectory_length t) 0) s))),
          logged = lg\<rparr>"
  by (simp add: modifyPathVelocity_def Let_def)


lemma getEgoAndStopPoint_fst:
  "fst (getEgoAndStopPoint g m pd t ego_pose st) = closest g t (position ego_pose)"
  by (cases st) (simp_all add: getEgoAndStopPoint_def Let_def split: option.split)

lemma getEgoAndStopPoint_STOPPED:
  "getEgoAndStopPoint g m pd t ego_pose STOPPED =
     (closest g t (position ego_pose), Some (closest g t (position ego_pose)))"
  by (simp add: getEgoAndStopPoint_def Let_def)

lemma getEgoAndStopPoint_START:
  "getEgoAndStopPoint g m pd t ego_pose START = (closest g t (position ego_pose), None)"
  by (simp add: getEgoAndStopPoint_def Let_def)

lemma update_ok:
  "st = STOPPED \<longrightarrow> stopped \<noteq> None \<Longrightarrow>
   \<exists>st1 stopped1 lg. updateStateAndStoppedTime pp st stopped now d v = Inr (st1, stopped1, lg)"
  by (cases st) (auto simp: Let_def)

lemma update_inv:
  "updateStateAndStoppedTime pp st stopped now d v = Inr (st1, stopped1, lg) \<Longrightarrow>
   (stopped \<noteq> None) = (st = STOPPED) \<Longrightarrow> (stopped1 \<noteq> None) = (st1 = STOPPED)"
  by (cases st) (auto simp: Let_def split: if_splits option.splits)

lemma update_next:
  "updateStateAndStoppedTime pp st stopped now d v = Inr (st1, stopped1, lg) \<Longrightarrow>
   (case st of
      APPROACH \<Rightarrow> st1 = APPROACH \<or> st1 = STOPPED
    | STOPPED \<Rightarrow> st1 = STOPPED \<or> st1 = START
    | START \<Rightarrow> st1 = START)"
  by (cases st) (auto simp: Let_def split: if_splits option.splits)

lemma update_stopped_time:
  "updateStateAndStoppedTime pp st stopped now d v = Inr (st1, stopped1, lg) \<Longrightarrow>
   stopped1 =
     (if st = APPROACH \<and> st1 = STOPPED then Some now
      else if st = STOPPED \<and> st1 = START then None
      else stopped)"
  by (cases st) (auto simp: Let_def split: if_splits option.splits)

subsection \<open>Planning cycles and the module state\<close>

text \<open>
  A cycle of a module whose stopped time is present whenever it is \<open>STOPPED\<close> returns;
  it leaves the state and the stopped time alone, or changes them as
  \<open>updateStateAndStoppedTime\<close> does.
\<close>

lemma cycle_cases:
  assumes "stopped_time m = None \<longrightarrow> state m \<noteq> STOPPED"
  shows "\<exists>r. cycle g m i = Inr r \<and> planner_param (self r) = planner_param m \<and>
           ((state (self r) = state m \<and> stopped_time (self r) = stopped_time m) \<or>
            (\<exists>d lg. updateStateAndStoppedTime (planner_param m) (state m) (stopped_time m)
                      (clock_now i) d (isVehicleStopped (planner_data i))
                    = Inr (state (self r), stopped_time (self r), lg)))"
proof (cases "build g (points (input_path i))")
  case None
  then show ?thesis
    by (simp add: cycle_def modify_build_fails)
next
  case (Some t)
  obtain e sp where es:
    "getEgoAndStopPoint g m (planner_data i) t (current_odometry_pose (planner_data i)) (state m)
       = (e, sp)"
    by (cases "getEgoAndStopPoint g m (planner_data i) t
                 (current_odometry_pose (planner_data i)) (state m)")
  show ?thesis
  proof (cases sp)
    case None
    with Some es show ?thesis
      by (simp add: cycle_def modify_no_stop_point)
  next
    case sp: (Some s)
    from assms have "state m = STOPPED \<longrightarrow> stopped_time m \<noteq> None"
      by blast
    from update_ok [OF this]
    obtain st1 stopped1 lg where
      u: "updateStateAndStoppedTime (planner_param m) (state m) (stopped_time m)
            (clock_now i) (s - e) (isVehicleStopped (planner_data i)) = Inr (st1, stopped1, lg)"
      by blast
    from Some es sp u show ?thesis
      by (auto simp: cycle_def modify_stop_point)
  qed
qed

lemma cycle_inv:
  assumes "(stopped_time m \<noteq> None) = (state m = STOPPED)"
  shows "\<exists>r. cycle g m i = Inr r \<and> (stopped_time (self r) \<noteq> None) = (state (self r) = STOPPED)"
proof -
  from assms have "stopped_time m = None \<longrightarrow> state m \<noteq> STOPPED"
    by blast
  from cycle_cases [OF this, of g i] obtain r where
    r: "cycle g m i = Inr r"
    and c: "(state (self r) = state m \<and> stopped_time (self r) = stopped_time m) \<or>
            (\<exists>d lg. updateStateAndStoppedTime (planner_param m) (state m) (stopped_time m)
                      (clock_now i) d (isVehicleStopped (planner_data i))
                    = Inr (state (self r), stopped_time (self r), lg))"
    by blast
  from c assms have "(stopped_time (self r) \<noteq> None) = (state (self r) = STOPPED)"
    by (auto dest: update_inv)
  with r show ?thesis
    by blast
qed

lemma run_inv:
  "(stopped_time m \<noteq> None) = (state m = STOPPED) \<Longrightarrow>
   \<exists>m1. run g m ins = Inr m1 \<and> (stopped_time m1 \<noteq> None) = (state m1 = STOPPED)"
proof (induction ins arbitrary: m)
  case Nil
  then show ?case by simp
next
  case (Cons i ins)
  from cycle_inv [OF Cons.prems, of g i] obtain r where
    r: "cycle g m i = Inr r"
    and inv: "(stopped_time (self r) \<noteq> None) = (state (self r) = STOPPED)"
    by blast
  from Cons.IH [OF inv] r show ?case
    by simp
qed

lemma new_inv:
  "(stopped_time (StopLineModule_new mid sl pp) \<noteq> None)
     = (state (StopLineModule_new mid sl pp) = STOPPED)"
  by (simp add: StopLineModule_new_def)

lemma reachable_inv:
  "\<exists>m. run g (StopLineModule_new mid sl pp) ins = Inr m \<and>
        (stopped_time m \<noteq> None) = (state m = STOPPED)"
  by (rule run_inv [OF new_inv])

lemma cycle_stopped:
  assumes "state m = STOPPED" and "stopped_time m = Some T0"
  shows "\<exists>r. cycle g m i = Inr r \<and> planner_param (self r) = planner_param m \<and>
           (if build g (points (input_path i)) \<noteq> None \<and>
               seconds (clock_now i - T0) > stop_duration_sec (planner_param m)
            then state (self r) = START \<and> stopped_time (self r) = None
            else state (self r) = STOPPED \<and> stopped_time (self r) = Some T0)"
proof (cases "build g (points (input_path i))")
  case None
  with assms show ?thesis
    by (simp add: cycle_def modify_build_fails)
next
  case (Some t)
  have e: "getEgoAndStopPoint g m (planner_data i) t (current_odometry_pose (planner_data i))
             (state m)
           = (closest g t (position (current_odometry_pose (planner_data i))),
              Some (closest g t (position (current_odometry_pose (planner_data i)))))"
    using assms(1) by (simp add: getEgoAndStopPoint_STOPPED)
  show ?thesis
  proof (cases "seconds (clock_now i - T0) > stop_duration_sec (planner_param m)")
    case True
    with assms have u:
      "updateStateAndStoppedTime (planner_param m) (state m) (stopped_time m) (clock_now i)
         (closest g t (position (current_odometry_pose (planner_data i)))
            - closest g t (position (current_odometry_pose (planner_data i))))
         (isVehicleStopped (planner_data i))
       = Inr (START, None, [(INFO, ''STOPPED -> START'')])"
      by simp
    from True Some show ?thesis
      by (simp add: cycle_def modify_stop_point [OF Some e u])
  next
    case False
    with assms have u:
      "updateStateAndStoppedTime (planner_param m) (state m) (stopped_time m) (clock_now i)
         (closest g t (position (current_odometry_pose (planner_data i)))
            - closest g t (position (current_odometry_pose (planner_data i))))
         (isVehicleStopped (planner_data i))
       = Inr (STOPPED, Some T0, [])"
      by simp
    from False Some show ?thesis
      by (simp add: cycle_def modify_stop_point [OF Some e u])
  qed
qed

lemma run_stopped_hold:
  assumes "state m = STOPPED" and "stopped_time m = Some T0"
    and "\<forall>i \<in> set ins.
           seconds (clock_now i - T0) \<le> stop_duration_sec (planner_param m) \<or>
           build g (points (input_path i)) = None"
  shows "\<exists>m1. run g m ins = Inr m1 \<and> state m1 = STOPPED \<and> stopped_time m1 = Some T0 \<and>
           planner_param m1 = planner_param m"
  using assms
proof (induction ins arbitrary: m)
  case Nil
  then show ?case by simp
next
  case (Cons i ins)
  from Cons.prems(3)
  have le: "\<not> (build g (points (input_path i)) \<noteq> None \<and>
               seconds (clock_now i - T0) > stop_duration_sec (planner_param m))"
    by auto
  from cycle_stopped [OF Cons.prems(1) Cons.prems(2), of g i] le obtain r where
    r: "cycle g m i = Inr r" and pp: "planner_param (self r) = planner_param m"
    and st: "state (self r) = STOPPED" and tm: "stopped_time (self r) = Some T0"
    by auto
  from Cons.prems(3) pp
  have "\<forall>j \<in> set ins.
          seconds (clock_now j - T0) \<le> stop_duration_sec (planner_param (self r)) \<or>
          build g (points (input_path j)) = None"
    by simp
  from Cons.IH [OF st tm this] r pp show ?case
    by simp
qed

lemma run_snoc:
  "run g m (ins @ [j]) = (case run g m ins of Inl e \<Rightarrow> Inl e | Inr m1 \<Rightarrow> run g m1 [j])"
  by (induction ins arbitrary: m) (simp_all split: sum.split)

subsection \<open>The trajectory\<close>

lemma length_arc_lengths: "length (arc_lengths g s ps) = length ps"
  by (induction g s ps rule: arc_lengths.induct) simp_all

lemma build_None_iff:
  "(build g ps = None) = (length ps < 2 \<or> \<not> sorted_wrt (<) (arc_lengths g 0 ps))"
  by (simp add: build_def)

lemma build_Some:
  "build g ps = Some t \<Longrightarrow>
   tpoints t = ps \<and> bases t = arc_lengths g 0 ps \<and> length (bases t) = length ps \<and>
   2 \<le> length ps \<and> sorted_wrt (<) (bases t)"
  by (auto simp: build_def length_arc_lengths split: if_splits)

lemma range_set_nth:
  assumes "length (bases t) = length (tpoints t)" and "k < length (tpoints t)"
  shows "restore (range_set t a b v) ! k =
           (if a \<le> bases t ! k \<and> bases t ! k \<le> b then set_velocity v (tpoints t ! k)
            else tpoints t ! k)"
  using assms by (simp add: restore_def range_set_def)

lemma length_range_set:
  "length (bases t) = length (tpoints t) \<Longrightarrow>
   length (restore (range_set t a b v)) = length (tpoints t)"
  by (simp add: restore_def range_set_def)

lemma set_velocity_sel:
  "longitudinal_velocity_mps (point (set_velocity v p)) = v"
  "pose (point (set_velocity v p)) = pose (point p)"
  "lane_ids (set_velocity v p) = lane_ids p"
  by (simp_all add: set_velocity_def)

subsection \<open>More on one call\<close>

lemma modify_START:
  assumes "state m = START"
  shows "modifyPathVelocity g m pd now pth sr =
           Inr \<lparr>ret = True, self = m, path = pth, stop_reason = sr, logged = []\<rparr>"
proof (cases "build g (points pth)")
  case None
  then show ?thesis
    by (rule modify_build_fails)
next
  case (Some t)
  have "getEgoAndStopPoint g m pd t (current_odometry_pose pd) (state m)
          = (closest g t (position (current_odometry_pose pd)), None)"
    using assms by (simp add: getEgoAndStopPoint_START)
  from modify_no_stop_point [OF Some this] show ?thesis .
qed


lemma updateDebugData_flag:
  "updateDebugData (pd\<lparr>isVehicleStopped := v\<rparr>) dd sp st = updateDebugData pd dd sp st"
  by (simp add: updateDebugData_def)

lemma updateDebugData_sel:
  "base_link2front (updateDebugData pd dd sp st) = max_longitudinal_offset_m pd"
  "stop_pose (updateDebugData pd dd sp st) = (if st = START then None else Some sp)"
  by (simp_all add: updateDebugData_def Let_def)


subsection \<open>The test inputs, evaluated\<close>

lemma test_geometry_sel:
  "segment_length (test_geometry e c) = (\<lambda>p q. \<bar>px q - px p\<bar>)"
  "closest (test_geometry e c) = (\<lambda>t p. e)"
  "crossed (test_geometry e c) = (\<lambda>t a b. c)"
  "compute (test_geometry e c) = (\<lambda>t s. test_point s 0)"
  by (simp_all add: test_geometry_def)

lemma test_double:
  "double_add 1 2 = 3"
  "double_sub 5 3 = 2"
  "double_sub 2 3 = - 1"
  "double_add 1 (1 / 2 ^ 53) = 1"
  "double_sub 1 1 = 0"
proof -
  show "double_add 1 2 = 3"
    using round_double_binade [of 1 3] round_half_even_of_int [of 6755399441055744]
    by (simp add: double_add_def power_int_minus)
  show "double_sub 5 3 = 2"
    using round_double_binade [of 1 2] round_half_even_of_int [of 4503599627370496]
    by (simp add: double_sub_def power_int_minus)
  show "double_sub 2 3 = - 1"
    using round_double_binade [of 0 "- 1"] round_half_even_of_int [of "- 4503599627370496"]
    by (simp add: double_sub_def power_int_minus)
  show "double_add 1 (1 / 2 ^ 53) = 1"
    using round_double_binade [of 0 "1 + 1 / 2 ^ 53"]
    by (simp add: double_add_def power_int_minus round_half_even_def Let_def)
  show "double_sub 1 1 = 0"
    by (simp add: double_sub_def round_double_0)
qed

lemma build_test_path:
  "build (test_geometry e c) (points test_path) =
     Some \<lparr>bases = [0, 1, 2, 3], tpoints = points test_path\<rparr>"
  by (simp add: build_def test_path_def test_point_def test_pose_def test_geometry_sel)

lemma test_module_sel:
  "state test_module = APPROACH"
  "stopped_time test_module = None"
  "planner_param test_module = test_param"
  "state test_module_stopped = STOPPED"
  "stopped_time test_module_stopped = Some 0"
  "planner_param test_module_stopped = test_param"
  "stop_margin (planner_param test_module_small_margin) = 1 / 2 ^ 53"
  by (simp_all add: test_module_def test_module_stopped_def test_module_small_margin_def
      StopLineModule_new_def)

lemma test_param_sel:
  "stop_margin test_param = 2"
  "stop_duration_sec test_param = 2"
  "hold_stop_margin_distance test_param = 1"
  by (simp_all add: test_param_def)

lemma test_planner_data_sel:
  "current_odometry_pose (test_planner_data v) = test_pose 0"
  "max_longitudinal_offset_m (test_planner_data v) = 1"
  "isVehicleStopped (test_planner_data v) = v"
  by (simp_all add: test_planner_data_def)

lemma test_cycle_first:
  "cycle (test_geometry (3 / 2) (Some 5)) test_module (test_input True 0) =
     Inr \<lparr>ret = True, self = test_module_stopped,
          path = \<lparr>points = [test_point 0 5, test_point 1 5, test_point 2 0, test_point 3 0]\<rparr>,
          stop_reason =
            [\<lparr>stop_factor_pose = test_pose 2,
              stop_factor_points = [\<lparr>px = 2, py = 0, pz = 0\<rparr>]\<rparr>],
          logged = [(INFO, ''APPROACH -> STOPPED'')]\<rparr>"
proof -
  have e: "getEgoAndStopPoint (test_geometry (3 / 2) (Some 5)) test_module (test_planner_data True)
             \<lparr>bases = [0, 1, 2, 3], tpoints = points test_path\<rparr>
             (current_odometry_pose (test_planner_data True)) (state test_module) = (3 / 2, Some 2)"
    by (simp add: getEgoAndStopPoint_def Let_def test_geometry_sel test_module_sel test_param_sel
        test_planner_data_sel test_double)
  have u: "updateStateAndStoppedTime (planner_param test_module) (state test_module)
             (stopped_time test_module) 0 (2 - 3 / 2) (isVehicleStopped (test_planner_data True))
           = Inr (STOPPED, Some 0, [(INFO, ''APPROACH -> STOPPED'')])"
    by (simp add: test_module_sel test_param_sel test_planner_data_sel)
  show ?thesis
    unfolding cycle_def test_input_def
    apply (simp add: modify_stop_point [OF build_test_path e u])
    apply (simp add: test_module_stopped_def test_module_def StopLineModule_new_def
        velocity_factor_init_def velocity_factor_set_def updateDebugData_def Let_def
        updateStopReason_def getCenterOfStopLine_def test_geometry_sel test_point_def
        restore_def range_set_def trajectory_length_def set_velocity_def test_path_def
        test_planner_data_sel)
    done
qed

lemma test_run_first:
  "run (test_geometry (3 / 2) (Some 5)) test_module [test_input True 0] = Inr test_module_stopped"
  by (simp add: test_cycle_first)

lemma test_cycle_release:
  "cycle (test_geometry (3 / 2) (Some 5)) test_module_stopped (test_input True 2500000000)
     = Inr test_result_release"
proof -
  have e: "getEgoAndStopPoint (test_geometry (3 / 2) (Some 5)) test_module_stopped
             (test_planner_data True) \<lparr>bases = [0, 1, 2, 3], tpoints = points test_path\<rparr>
             (current_odometry_pose (test_planner_data True)) (state test_module_stopped)
           = (3 / 2, Some (3 / 2))"
    by (simp add: getEgoAndStopPoint_STOPPED test_geometry_sel test_module_sel)
  have u: "updateStateAndStoppedTime (planner_param test_module_stopped)
             (state test_module_stopped) (stopped_time test_module_stopped) 2500000000
             (3 / 2 - 3 / 2) (isVehicleStopped (test_planner_data True))
           = Inr (START, None, [(INFO, ''STOPPED -> START'')])"
    by (simp add: test_module_sel test_param_sel test_planner_data_sel seconds_def)
  show ?thesis
    unfolding cycle_def test_input_def
    apply (simp add: modify_stop_point [OF build_test_path e u])
    apply (simp add: test_result_release_def test_result_hold_def test_module_stopped_def
        test_module_def StopLineModule_new_def
        velocity_factor_init_def velocity_factor_set_def updateDebugData_def Let_def
        updateStopReason_def getCenterOfStopLine_def test_geometry_sel test_point_def
        restore_def range_set_def trajectory_length_def set_velocity_def test_path_def
        test_planner_data_sel)
    done
qed


lemma test_input_sel:
  "planner_data (test_input v n) = test_planner_data v"
  "clock_now (test_input v n) = n"
  "input_path (test_input v n) = test_path"
  "input_stop_reason (test_input v n) = []"
  by (simp_all add: test_input_def)

lemma test_result_sel:
  "state (self test_result_hold) = STOPPED"
  "stopped_time (self test_result_hold) = Some 0"
  "stop_pose (debug_data (self test_result_hold)) = Some (test_pose (3 / 2))"
  "state (self test_result_release) = START"
  "stopped_time (self test_result_release) = None"
  "stop_pose (debug_data (self test_result_release)) = None"
  "path test_result_release = path test_result_hold"
  "stop_reason test_result_release = stop_reason test_result_hold"
  "velocity_factor (self test_result_release) = velocity_factor (self test_result_hold)"
  "points (path test_result_release)
     = [test_point 0 5, test_point 1 5, test_point 2 0, test_point 3 0]"
  by (simp_all add: test_result_hold_def test_result_release_def test_module_stopped_def)

subsection \<open>The cycle that releases\<close>

text \<open>
  Claim C1, as amended. If the state is \<open>STOPPED\<close> with a stop duration of 2.0 s and
  2.5 s have elapsed since the stopped time, then in that same cycle (its trajectory
  being valid) the module goes to \<open>START\<close>, the stopped time is cleared and the debug
  stop pose is absent; the stop arc-length resolved in that cycle is still present and
  equal to \<open>ego_s\<close>, and the output path of that cycle has zero velocity at every point
  with arc-length in \<open>[ego_s, trajectory length]\<close>. From the next cycle on the resolved
  stop arc-length is absent and the path is returned as it came.
\<close>

theorem C1_release_cycle:
  assumes "state m = STOPPED"
    and "stopped_time m = Some T0"
    and "stop_duration_sec (planner_param m) = 2"
    and "now = T0 + 2500000000"
    and "build g (points pth) = Some t"
    and "ego_s = closest g t (position (current_odometry_pose pd))"
  shows "snd (getEgoAndStopPoint g m pd t (current_odometry_pose pd) (state m)) = Some ego_s \<and>
         (\<exists>r. modifyPathVelocity g m pd now pth sr = Inr r \<and>
            state (self r) = START \<and>
            stopped_time (self r) = None \<and>
            stop_pose (debug_data (self r)) = None \<and>
            points (path r) = restore (range_set t ego_s (trajectory_length t) 0) \<and>
            (\<forall>k < length (points pth).
               ego_s \<le> bases t ! k \<and> bases t ! k \<le> trajectory_length t \<longrightarrow>
               longitudinal_velocity_mps (point (points (path r) ! k)) = 0) \<and>
            (\<forall>pd1 t1 pose1.
               snd (getEgoAndStopPoint g (self r) pd1 t1 pose1 (state (self r))) = None) \<and>
            (\<forall>pd1 now1 pth1 sr1.
               modifyPathVelocity g (self r) pd1 now1 pth1 sr1
                 = Inr \<lparr>ret = True, self = self r, path = pth1, stop_reason = sr1,
                        logged = []\<rparr>))"
proof -
  have e: "getEgoAndStopPoint g m pd t (current_odometry_pose pd) (state m) = (ego_s, Some ego_s)"
    using assms(1) assms(6) by (simp add: getEgoAndStopPoint_STOPPED)
  have u: "updateStateAndStoppedTime (planner_param m) (state m) (stopped_time m) now
             (ego_s - ego_s) (isVehicleStopped pd)
           = Inr (START, None, [(INFO, ''STOPPED -> START'')])"
    using assms(1) assms(2) assms(3) assms(4) by (simp add: seconds_def)
  note r = modify_stop_point [OF assms(5) e u, of sr]
  from build_Some [OF assms(5)] have
    tp: "tpoints t = points pth" and len: "length (bases t) = length (tpoints t)"
    by (simp_all add: length_arc_lengths)
  have z: "\<forall>k < length (points pth).
             ego_s \<le> bases t ! k \<and> bases t ! k \<le> trajectory_length t \<longrightarrow>
             longitudinal_velocity_mps
               (point (restore (range_set t ego_s (trajectory_length t) 0) ! k)) = 0"
    using tp len by (simp add: range_set_nth set_velocity_sel)
  let ?m1 = "m\<lparr>state := START, stopped_time := None,
               velocity_factor := updateVelocityFactor (velocity_factor m) (state m) (ego_s - ego_s),
               debug_data :=
                 updateDebugData pd (debug_data m)
                   (pose (point (compute g (range_set t ego_s (trajectory_length t) 0) ego_s)))
                   START\<rparr>"
  have s1: "state ?m1 = START"
    by simp
  have n1: "\<forall>pd1 t1 pose1. snd (getEgoAndStopPoint g ?m1 pd1 t1 pose1 (state ?m1)) = None"
    by (simp add: getEgoAndStopPoint_START)
  have n2: "\<forall>pd1 now1 pth1 sr1.
               modifyPathVelocity g ?m1 pd1 now1 pth1 sr1
                 = Inr \<lparr>ret = True, self = ?m1, path = pth1, stop_reason = sr1, logged = []\<rparr>"
    using modify_START [OF s1] by blast
  have "\<exists>r. modifyPathVelocity g m pd now pth sr = Inr r \<and>
            state (self r) = START \<and>
            stopped_time (self r) = None \<and>
            stop_pose (debug_data (self r)) = None \<and>
            points (path r) = restore (range_set t ego_s (trajectory_length t) 0) \<and>
            (\<forall>k < length (points pth).
               ego_s \<le> bases t ! k \<and> bases t ! k \<le> trajectory_length t \<longrightarrow>
               longitudinal_velocity_mps (point (points (path r) ! k)) = 0) \<and>
            (\<forall>pd1 t1 pose1.
               snd (getEgoAndStopPoint g (self r) pd1 t1 pose1 (state (self r))) = None) \<and>
            (\<forall>pd1 now1 pth1 sr1.
               modifyPathVelocity g (self r) pd1 now1 pth1 sr1
                 = Inr \<lparr>ret = True, self = self r, path = pth1, stop_reason = sr1,
                        logged = []\<rparr>)"
    apply (rule exI, rule conjI, rule r)
    using z n1 n2 apply (simp add: updateDebugData_sel)
    done
  with e show ?thesis
    by simp
qed

text \<open>
  The held test module at 2.5 s: it releases, the points at arc-lengths 2 and 3 are
  zeroed in this cycle, and the cycle after returns the test path untouched.
\<close>

theorem C1_release_cycle_witness:
  "state test_module_stopped = STOPPED \<and>
   stopped_time test_module_stopped = Some 0 \<and>
   stop_duration_sec (planner_param test_module_stopped) = 2 \<and>
   (2500000000::int) = 0 + 2500000000 \<and>
   build (test_geometry (3 / 2) (Some 5)) (points test_path) = Some \<lparr>bases = [0, 1, 2, 3], tpoints = points test_path\<rparr> \<and>
   3 / 2 = closest (test_geometry (3 / 2) (Some 5)) \<lparr>bases = [0, 1, 2, 3], tpoints = points test_path\<rparr> (position (current_odometry_pose (test_planner_data True))) \<and>
   snd (getEgoAndStopPoint (test_geometry (3 / 2) (Some 5)) test_module_stopped (test_planner_data True) \<lparr>bases = [0, 1, 2, 3], tpoints = points test_path\<rparr>
          (current_odometry_pose (test_planner_data True)) (state test_module_stopped))
     = Some (3 / 2) \<and>
   (\<exists>r. modifyPathVelocity (test_geometry (3 / 2) (Some 5)) test_module_stopped (test_planner_data True) 2500000000
           test_path [] = Inr r \<and>
         state (self r) = START \<and>
         stopped_time (self r) = None \<and>
         stop_pose (debug_data (self r)) = None \<and>
         points (path r) = [test_point 0 5, test_point 1 5, test_point 2 0, test_point 3 0] \<and>
         modifyPathVelocity (test_geometry (3 / 2) (Some 5)) (self r) (test_planner_data True) 3000000000 test_path []
           = Inr \<lparr>ret = True, self = self r, path = test_path, stop_reason = [],
                  logged = []\<rparr>)"
proof -
  have h3: "stop_duration_sec (planner_param test_module_stopped) = 2"
    by (simp add: test_module_sel test_param_sel)
  have h4: "(2500000000::int) = 0 + 2500000000"
    by simp
  have h6: "3 / 2 = closest (test_geometry (3 / 2) (Some 5)) \<lparr>bases = [0, 1, 2, 3], tpoints = points test_path\<rparr> (position (current_odometry_pose (test_planner_data True)))"
    by (simp add: test_geometry_sel)
  have z: "restore (range_set \<lparr>bases = [0, 1, 2, 3], tpoints = points test_path\<rparr> (3 / 2) (trajectory_length \<lparr>bases = [0, 1, 2, 3], tpoints = points test_path\<rparr>) 0)
             = [test_point 0 5, test_point 1 5, test_point 2 0, test_point 3 0]"
    by (simp add: restore_def range_set_def trajectory_length_def set_velocity_def test_path_def
        test_point_def)
  from C1_release_cycle [OF test_module_sel(4) test_module_sel(5) h3 h4 build_test_path h6,
      of "[]"]
  obtain r where
    r: "modifyPathVelocity (test_geometry (3 / 2) (Some 5)) test_module_stopped (test_planner_data True) 2500000000
          test_path [] = Inr r"
      "state (self r) = START"
      "stopped_time (self r) = None"
      "stop_pose (debug_data (self r)) = None"
      "points (path r) = restore (range_set \<lparr>bases = [0, 1, 2, 3], tpoints = points test_path\<rparr> (3 / 2) (trajectory_length \<lparr>bases = [0, 1, 2, 3], tpoints = points test_path\<rparr>) 0)"
      "\<forall>pd1 now1 pth1 sr1.
         modifyPathVelocity (test_geometry (3 / 2) (Some 5)) (self r) pd1 now1 pth1 sr1
           = Inr \<lparr>ret = True, self = self r, path = pth1, stop_reason = sr1, logged = []\<rparr>"
    and e: "snd (getEgoAndStopPoint (test_geometry (3 / 2) (Some 5)) test_module_stopped (test_planner_data True) \<lparr>bases = [0, 1, 2, 3], tpoints = points test_path\<rparr>
          (current_odometry_pose (test_planner_data True)) (state test_module_stopped))
     = Some (3 / 2)"
    by blast
  from r(6) have n: "modifyPathVelocity (test_geometry (3 / 2) (Some 5)) (self r) (test_planner_data True) 3000000000 test_path []
           = Inr \<lparr>ret = True, self = self r, path = test_path, stop_reason = [],
                  logged = []\<rparr>"
    by blast
  from r(1-5) n z e h3 h6 show ?thesis
    by (simp add: test_module_sel build_test_path)
qed

text \<open>
  The claim as stated fails in the cycle that releases: with every input velocity at
  5 m/s, the stop arc-length resolved in that cycle is 3/2 and the path that the cycle
  returns has zero velocity at the points beyond it.
\<close>

theorem C1_same_cycle_counterexample:
  "state test_module_stopped = STOPPED \<and>
   stopped_time test_module_stopped = Some 0 \<and>
   stop_duration_sec (planner_param test_module_stopped) = 2 \<and>
   seconds (2500000000 - 0) = 5 / 2 \<and>
   map (longitudinal_velocity_mps \<circ> point) (points test_path) = [5, 5, 5, 5] \<and>
   modifyPathVelocity (test_geometry (3 / 2) (Some 5)) test_module_stopped (test_planner_data True) 2500000000 test_path []
     = Inr test_result_release \<and>
   state (self test_result_release) = START \<and>
   map (longitudinal_velocity_mps \<circ> point) (points (path test_result_release)) = [5, 5, 0, 0] \<and>
   snd (getEgoAndStopPoint (test_geometry (3 / 2) (Some 5)) test_module_stopped (test_planner_data True) \<lparr>bases = [0, 1, 2, 3], tpoints = points test_path\<rparr>
          (current_odometry_pose (test_planner_data True)) STOPPED)
     = Some (3 / 2)"
proof -
  have a: "modifyPathVelocity (test_geometry (3 / 2) (Some 5)) test_module_stopped (test_planner_data True) 2500000000
             test_path [] = Inr test_result_release"
    using test_cycle_release by (simp add: cycle_def test_input_sel)
  have b: "map (longitudinal_velocity_mps \<circ> point) (points test_path) = [5, 5, 5, 5]"
    by (simp add: test_path_def test_point_def)
  have c: "map (longitudinal_velocity_mps \<circ> point) (points (path test_result_release))
             = [5, 5, 0, 0]"
    by (simp add: test_result_sel(10) test_point_def)
  have d: "snd (getEgoAndStopPoint (test_geometry (3 / 2) (Some 5)) test_module_stopped (test_planner_data True) \<lparr>bases = [0, 1, 2, 3], tpoints = points test_path\<rparr>
                  (current_odometry_pose (test_planner_data True)) STOPPED)
             = Some (3 / 2)"
    by (simp add: getEgoAndStopPoint_STOPPED test_geometry_sel)
  have e: "seconds (2500000000 - 0) = 5 / 2"
    by (simp add: seconds_def)
  from a b c d e show ?thesis
    by (simp add: test_module_sel test_param_sel test_result_sel(4))
qed

subsection \<open>The hold duration\<close>

text \<open>
  Claim C2, as amended. If \<open>STOPPED\<close> was entered at time \<open>T0\<close> with stop duration \<open>D\<close>,
  the state remains \<open>STOPPED\<close>, with the same stopped time, through every cycle
  evaluated at a time that is at most \<open>D\<close> seconds after \<open>T0\<close>, and through every cycle
  whose path is no trajectory; it changes to \<open>START\<close>, and the stopped time is cleared,
  in the first cycle with a valid trajectory evaluated strictly more than \<open>D\<close> seconds
  after \<open>T0\<close>. The comparison of \<open>updateStateAndStoppedTime\<close> is strict.
\<close>

theorem C2_hold_until_duration_exceeded:
  assumes "state m = STOPPED"
    and "stopped_time m = Some T0"
    and "\<forall>i \<in> set ins.
           seconds (clock_now i - T0) \<le> stop_duration_sec (planner_param m) \<or>
           build g (points (input_path i)) = None"
    and "build g (points (input_path j)) \<noteq> None"
    and "seconds (clock_now j - T0) > stop_duration_sec (planner_param m)"
  shows "(\<exists>m1. run g m ins = Inr m1 \<and> state m1 = STOPPED \<and> stopped_time m1 = Some T0) \<and>
         (\<exists>m2. run g m (ins @ [j]) = Inr m2 \<and> state m2 = START \<and> stopped_time m2 = None) \<and>
         updateStateAndStoppedTime (planner_param m) STOPPED (Some T0) now d v
           = (if seconds (now - T0) > stop_duration_sec (planner_param m)
              then Inr (START, None, [(INFO, ''STOPPED -> START'')])
              else Inr (STOPPED, Some T0, []))"
proof -
  from run_stopped_hold [OF assms(1) assms(2) assms(3)] obtain m1 where
    m1: "run g m ins = Inr m1" "state m1 = STOPPED" "stopped_time m1 = Some T0"
      "planner_param m1 = planner_param m"
    by blast
  from cycle_stopped [OF m1(2) m1(3), of g j] assms(4) assms(5) m1(4) obtain r where
    r: "cycle g m1 j = Inr r" "state (self r) = START" "stopped_time (self r) = None"
    by auto
  from m1 r have "run g m (ins @ [j]) = Inr (self r)"
    by (simp add: run_snoc)
  with m1 r show ?thesis
    by simp
qed

text \<open>
  Held since time 0 with a stop duration of 2 s: cycles at 1 s and at 2 s, and a cycle
  at 2.5 s with a path of one point, keep \<open>STOPPED\<close>; the cycle at 2.5 s with the test
  path that follows them releases.
\<close>

theorem C2_hold_until_duration_exceeded_witness:
  "state test_module_stopped = STOPPED \<and>
   stopped_time test_module_stopped = Some 0 \<and>
   seconds (1000000000 - 0) \<le> stop_duration_sec (planner_param test_module_stopped) \<and>
   seconds (2000000000 - 0) \<le> stop_duration_sec (planner_param test_module_stopped) \<and>
   build (test_geometry (3 / 2) (Some 5)) (points \<lparr>points = [test_point 0 5]\<rparr>) = None \<and>
   build (test_geometry (3 / 2) (Some 5)) (points (input_path (test_input True 2500000000))) \<noteq> None \<and>
   seconds (2500000000 - 0) > stop_duration_sec (planner_param test_module_stopped) \<and>
   (\<exists>m1. run (test_geometry (3 / 2) (Some 5)) test_module_stopped
             [test_input True 1000000000, test_input True 2000000000,
              (test_input True 2500000000)\<lparr>input_path := \<lparr>points = [test_point 0 5]\<rparr>\<rparr>]
             = Inr m1 \<and>
          state m1 = STOPPED \<and> stopped_time m1 = Some 0) \<and>
   (\<exists>m2. run (test_geometry (3 / 2) (Some 5)) test_module_stopped
             ([test_input True 1000000000, test_input True 2000000000,
               (test_input True 2500000000)\<lparr>input_path := \<lparr>points = [test_point 0 5]\<rparr>\<rparr>]
                @ [test_input True 2500000000]) = Inr m2 \<and>
          state m2 = START \<and> stopped_time m2 = None)"
proof -
  have b: "build (test_geometry (3 / 2) (Some 5)) (points \<lparr>points = [test_point 0 5]\<rparr>) = None"
    by (simp add: build_def)
  have h3: "\<forall>i \<in> set [test_input True 1000000000, test_input True 2000000000,
                        (test_input True 2500000000)
                          \<lparr>input_path := \<lparr>points = [test_point 0 5]\<rparr>\<rparr>].
              seconds (clock_now i - 0) \<le> stop_duration_sec (planner_param test_module_stopped) \<or>
              build (test_geometry (3 / 2) (Some 5)) (points (input_path i)) = None"
    using b by (simp add: test_input_sel test_module_sel test_param_sel seconds_def)
  have h4: "build (test_geometry (3 / 2) (Some 5)) (points (input_path (test_input True 2500000000))) \<noteq> None"
    by (simp add: test_input_sel build_test_path)
  have h5: "seconds (clock_now (test_input True 2500000000) - 0)
              > stop_duration_sec (planner_param test_module_stopped)"
    by (simp add: test_input_sel test_module_sel test_param_sel seconds_def)
  have s: "seconds (1000000000 - 0) \<le> stop_duration_sec (planner_param test_module_stopped)"
    "seconds (2000000000 - 0) \<le> stop_duration_sec (planner_param test_module_stopped)"
    by (simp_all add: test_module_sel test_param_sel seconds_def)
  from C2_hold_until_duration_exceeded [OF test_module_sel(4) test_module_sel(5) h3 h4 h5]
  have "(\<exists>m1. run (test_geometry (3 / 2) (Some 5)) test_module_stopped
             [test_input True 1000000000, test_input True 2000000000,
              (test_input True 2500000000)\<lparr>input_path := \<lparr>points = [test_point 0 5]\<rparr>\<rparr>]
             = Inr m1 \<and>
          state m1 = STOPPED \<and> stopped_time m1 = Some 0) \<and>
   (\<exists>m2. run (test_geometry (3 / 2) (Some 5)) test_module_stopped
             ([test_input True 1000000000, test_input True 2000000000,
               (test_input True 2500000000)\<lparr>input_path := \<lparr>points = [test_point 0 5]\<rparr>\<rparr>]
                @ [test_input True 2500000000]) = Inr m2 \<and>
          state m2 = START \<and> stopped_time m2 = None)"
    by blast
  with b h4 h5 s show ?thesis
    by (simp only: test_module_sel test_input_sel simp_thms)
qed

text \<open>
  The claim as stated fails at the boundary: the cycle evaluated exactly 2 s after the
  stopped time, which is the first at or after \<open>T0 + D\<close>, leaves the state \<open>STOPPED\<close>.
  So does a cycle after that time whose path has a single point.
\<close>

theorem C2_boundary_counterexample:
  "state test_module_stopped = STOPPED \<and>
   stopped_time test_module_stopped = Some 0 \<and>
   stop_duration_sec (planner_param test_module_stopped) = 2 \<and>
   seconds (2000000000 - 0) = 2 \<and>
   build (test_geometry (3 / 2) (Some 5)) (points test_path) \<noteq> None \<and>
   map_sum id (state \<circ> self)
     (modifyPathVelocity (test_geometry (3 / 2) (Some 5)) test_module_stopped (test_planner_data True) 2000000000
        test_path []) = Inr STOPPED \<and>
   updateStateAndStoppedTime test_param STOPPED (Some 0) 2000000000 0 True
     = Inr (STOPPED, Some 0, []) \<and>
   map_sum id (state \<circ> self)
     (modifyPathVelocity (test_geometry (3 / 2) (Some 5)) test_module_stopped (test_planner_data True) 2500000000
        \<lparr>points = [test_point 0 5]\<rparr> []) = Inr STOPPED"
proof -
  from cycle_stopped [OF test_module_sel(4) test_module_sel(5),
      of "test_geometry (3 / 2) (Some 5)" "test_input True 2000000000"]
  obtain r where
    "cycle (test_geometry (3 / 2) (Some 5)) test_module_stopped (test_input True 2000000000) = Inr r"
    "state (self r) = STOPPED"
    by (auto simp: test_input_sel test_module_sel test_param_sel seconds_def
        split: if_splits)
  then have a: "map_sum id (state \<circ> self)
     (modifyPathVelocity (test_geometry (3 / 2) (Some 5)) test_module_stopped (test_planner_data True) 2000000000
        test_path []) = Inr STOPPED"
    by (simp add: cycle_def test_input_sel)
  have "build (test_geometry (3 / 2) (Some 5)) (points \<lparr>points = [test_point 0 5]\<rparr>) = None"
    by (simp add: build_def)
  from modify_build_fails [OF this]
  have b: "map_sum id (state \<circ> self)
     (modifyPathVelocity (test_geometry (3 / 2) (Some 5)) test_module_stopped (test_planner_data True) 2500000000
        \<lparr>points = [test_point 0 5]\<rparr> []) = Inr STOPPED"
    by (simp add: test_module_sel)
  from a b show ?thesis
    by (simp add: test_module_sel test_param_sel seconds_def build_test_path)
qed

subsection \<open>The order of the steps of a cycle\<close>




subsection \<open>The stop-point resolver\<close>

text \<open>
  Claim C4, as amended. In state \<open>APPROACH\<close>, when the trajectory crosses the extended
  stop line at raw arc-length \<open>C\<close>, with front overhang \<open>F\<close>
  (\<open>max_longitudinal_offset_m\<close>) and stop margin \<open>M\<close>, the resolved stop arc-length is
  the double that the code computes for \<open>C - (F + M)\<close>, the sum rounded and then the
  difference rounded, whenever that double is at least 0; it is absent whenever that
  double is negative or there is no intersection. Whenever the sum and the difference
  are exact, this is the value \<open>C - F - M\<close> and its sign. The ego arc-length returned
  with it is that of the closest point.
\<close>

theorem C4_stop_margin_rounded:
  "getEgoAndStopPoint g m pd t ego_pose APPROACH =
     (closest g t (position ego_pose),
      case crossed g t
             (fst (extendLine g (fst (stop_line m)) (snd (stop_line m))
                     (stop_line_extend_length pd)))
             (snd (extendLine g (fst (stop_line m)) (snd (stop_line m))
                     (stop_line_extend_length pd))) of
        None \<Rightarrow> None
      | Some C \<Rightarrow>
          if 0 \<le> double_sub C
                    (double_add (max_longitudinal_offset_m pd) (stop_margin (planner_param m)))
          then Some (double_sub C
                       (double_add (max_longitudinal_offset_m pd)
                          (stop_margin (planner_param m))))
          else None) \<and>
   (crossed g t
        (fst (extendLine g (fst (stop_line m)) (snd (stop_line m))
                (stop_line_extend_length pd)))
        (snd (extendLine g (fst (stop_line m)) (snd (stop_line m))
                (stop_line_extend_length pd))) = Some C1 \<and>
    double_add (max_longitudinal_offset_m pd) (stop_margin (planner_param m))
      = max_longitudinal_offset_m pd + stop_margin (planner_param m) \<and>
    double_sub C1 (max_longitudinal_offset_m pd + stop_margin (planner_param m))
      = C1 - (max_longitudinal_offset_m pd + stop_margin (planner_param m)) \<longrightarrow>
    snd (getEgoAndStopPoint g m pd t ego_pose APPROACH)
      = (if 0 \<le> C1 - max_longitudinal_offset_m pd - stop_margin (planner_param m)
         then Some (C1 - max_longitudinal_offset_m pd - stop_margin (planner_param m))
         else None))"
proof (intro conjI impI)
  show "getEgoAndStopPoint g m pd t ego_pose APPROACH =
     (closest g t (position ego_pose),
      case crossed g t
             (fst (extendLine g (fst (stop_line m)) (snd (stop_line m))
                     (stop_line_extend_length pd)))
             (snd (extendLine g (fst (stop_line m)) (snd (stop_line m))
                     (stop_line_extend_length pd))) of
        None \<Rightarrow> None
      | Some C \<Rightarrow>
          if 0 \<le> double_sub C
                    (double_add (max_longitudinal_offset_m pd) (stop_margin (planner_param m)))
          then Some (double_sub C
                       (double_add (max_longitudinal_offset_m pd)
                          (stop_margin (planner_param m))))
          else None)"
    by (simp add: getEgoAndStopPoint_def Let_def not_le split: option.split)
next
  assume "crossed g t
        (fst (extendLine g (fst (stop_line m)) (snd (stop_line m))
                (stop_line_extend_length pd)))
        (snd (extendLine g (fst (stop_line m)) (snd (stop_line m))
                (stop_line_extend_length pd))) = Some C1 \<and>
    double_add (max_longitudinal_offset_m pd) (stop_margin (planner_param m))
      = max_longitudinal_offset_m pd + stop_margin (planner_param m) \<and>
    double_sub C1 (max_longitudinal_offset_m pd + stop_margin (planner_param m))
      = C1 - (max_longitudinal_offset_m pd + stop_margin (planner_param m))"
  then show "snd (getEgoAndStopPoint g m pd t ego_pose APPROACH)
      = (if 0 \<le> C1 - max_longitudinal_offset_m pd - stop_margin (planner_param m)
         then Some (C1 - max_longitudinal_offset_m pd - stop_margin (planner_param m))
         else None)"
    by (simp add: getEgoAndStopPoint_def Let_def not_le diff_diff_eq)
qed

text \<open>
  With overhang 1 and margin 2, where the sum 3 and the differences 2 and -1 are exact:
  a crossing at 5 resolves to 2, a crossing at 2 resolves to nothing, and so does a path
  that does not cross the line.
\<close>

theorem C4_stop_margin_rounded_witness:
  "crossed (test_geometry 1 (Some 5)) = (\<lambda>t a b. Some 5) \<and>
   double_add (max_longitudinal_offset_m (test_planner_data False))
       (stop_margin (planner_param test_module))
     = max_longitudinal_offset_m (test_planner_data False)
         + stop_margin (planner_param test_module) \<and>
   double_sub 5 (max_longitudinal_offset_m (test_planner_data False)
                   + stop_margin (planner_param test_module))
     = 5 - (max_longitudinal_offset_m (test_planner_data False)
              + stop_margin (planner_param test_module)) \<and>
   getEgoAndStopPoint (test_geometry 1 (Some 5)) test_module (test_planner_data False)
       \<lparr>bases = [0, 1, 2, 3], tpoints = points test_path\<rparr> (test_pose 1) APPROACH
     = (1, Some 2) \<and>
   getEgoAndStopPoint (test_geometry 1 (Some 2)) test_module (test_planner_data False)
       \<lparr>bases = [0, 1, 2, 3], tpoints = points test_path\<rparr> (test_pose 1) APPROACH
     = (1, None) \<and>
   getEgoAndStopPoint (test_geometry 1 None) test_module (test_planner_data False)
       \<lparr>bases = [0, 1, 2, 3], tpoints = points test_path\<rparr> (test_pose 1) APPROACH
     = (1, None)"
  using C4_stop_margin_rounded [of "test_geometry 1 (Some 5)" test_module
      "test_planner_data False" "\<lparr>bases = [0, 1, 2, 3], tpoints = points test_path\<rparr>"
      "test_pose 1" 5]
    C4_stop_margin_rounded [of "test_geometry 1 (Some 2)" test_module
      "test_planner_data False" "\<lparr>bases = [0, 1, 2, 3], tpoints = points test_path\<rparr>"
      "test_pose 1" 2]
    C4_stop_margin_rounded [of "test_geometry 1 None" test_module
      "test_planner_data False" "\<lparr>bases = [0, 1, 2, 3], tpoints = points test_path\<rparr>"
      "test_pose 1" 0]
  by (simp add: test_geometry_sel test_module_sel test_param_sel test_planner_data_sel
      test_double)

text \<open>
  The claim as stated fails where the sum rounds: with a crossing at 1, overhang 1 and
  margin \<open>2^-53\<close> the value \<open>C - F - M\<close> is negative, but the sum \<open>1 + 2^-53\<close> lies halfway
  between the doubles 1 and \<open>1 + 2^-52\<close> and rounds to 1, so that the code resolves the
  stop arc-length 0 instead of none.
\<close>

theorem C4_rounding_counterexample:
  "max_longitudinal_offset_m (test_planner_data False) = 1 \<and>
   stop_margin (planner_param test_module_small_margin) = 1 / 2 ^ 53 \<and>
   (1::real) - 1 - 1 / 2 ^ 53 < 0 \<and>
   getEgoAndStopPoint (test_geometry 0 (Some 1)) test_module_small_margin
       (test_planner_data False) \<lparr>bases = [0, 1, 2, 3], tpoints = points test_path\<rparr>
       (test_pose 0) APPROACH
     = (0, Some 0)"
proof -
  have "double_sub 1 (double_add 1 (1 / 2 ^ 53)) = 0"
    by (simp only: test_double)
  then have s: "double_sub 1 (double_add 1 (1 / 9007199254740992)) = 0"
    by simp
  show ?thesis
    by (simp add: getEgoAndStopPoint_def Let_def test_geometry_sel test_module_sel
        test_planner_data_sel s)
qed

subsection \<open>The transition to STOPPED\<close>



subsection \<open>The stop point while holding\<close>

text \<open>
  Claim C6. In state \<open>STOPPED\<close>, in every cycle with a valid trajectory, the resolver
  returns a stop point that is present and equal to \<open>ego_s\<close>, the arc-length closest to
  the ego. The output path has the input's points with the velocity set to zero at every
  point whose arc-length lies in \<open>[ego_s, trajectory length]\<close>, and the distance given to
  the velocity factor and to the transition check is 0. The module is one that has its
  stopped time, as every module in \<open>STOPPED\<close> that a run reaches has.
\<close>

theorem C6_stopped_resolves_to_ego:
  assumes "state m = STOPPED"
    and "stopped_time m = Some T0"
    and "build g (points pth) = Some t"
    and "ego_s = closest g t (position (current_odometry_pose pd))"
  shows "getEgoAndStopPoint g m pd t (current_odometry_pose pd) (state m) = (ego_s, Some ego_s) \<and>
         (\<exists>r. modifyPathVelocity g m pd now pth sr = Inr r \<and>
            points (path r) = restore (range_set t ego_s (trajectory_length t) 0) \<and>
            length (points (path r)) = length (points pth) \<and>
            (\<forall>k < length (points pth).
               if ego_s \<le> bases t ! k \<and> bases t ! k \<le> trajectory_length t
               then longitudinal_velocity_mps (point (points (path r) ! k)) = 0 \<and>
                    pose (point (points (path r) ! k)) = pose (point (points pth ! k)) \<and>
                    lane_ids (points (path r) ! k) = lane_ids (points pth ! k)
               else points (path r) ! k = points pth ! k) \<and>
            report (velocity_factor (self r)) = Some (0, VF_STOPPED) \<and>
            updateStateAndStoppedTime (planner_param m) (state m) (stopped_time m) now 0
                (isVehicleStopped pd)
              = Inr (state (self r), stopped_time (self r), logged r))"
proof -
  have e: "getEgoAndStopPoint g m pd t (current_odometry_pose pd) (state m) = (ego_s, Some ego_s)"
    using assms(1) assms(4) by (simp add: getEgoAndStopPoint_STOPPED)
  from assms(1) assms(2) have "state m = STOPPED \<longrightarrow> stopped_time m \<noteq> None"
    by simp
  from update_ok [OF this] obtain st1 stopped1 lg where
    u: "updateStateAndStoppedTime (planner_param m) (state m) (stopped_time m) now (ego_s - ego_s)
          (isVehicleStopped pd) = Inr (st1, stopped1, lg)"
    by blast
  note r = modify_stop_point [OF assms(3) e u, of sr]
  from build_Some [OF assms(3)] have
    tp: "tpoints t = points pth" and len: "length (bases t) = length (tpoints t)"
    by (simp_all add: length_arc_lengths)
  have nth: "\<forall>k < length (points pth).
               if ego_s \<le> bases t ! k \<and> bases t ! k \<le> trajectory_length t
               then longitudinal_velocity_mps
                      (point (restore (range_set t ego_s (trajectory_length t) 0) ! k)) = 0 \<and>
                    pose (point (restore (range_set t ego_s (trajectory_length t) 0) ! k))
                      = pose (point (points pth ! k)) \<and>
                    lane_ids (restore (range_set t ego_s (trajectory_length t) 0) ! k)
                      = lane_ids (points pth ! k)
               else restore (range_set t ego_s (trajectory_length t) 0) ! k = points pth ! k"
    using tp len by (simp add: range_set_nth set_velocity_sel)
  have vf: "report (updateVelocityFactor (velocity_factor m) (state m) (ego_s - ego_s))
              = Some (0, VF_STOPPED)"
    using assms(1) by (simp add: velocity_factor_set_def)
  from u have u0: "updateStateAndStoppedTime (planner_param m) (state m) (stopped_time m) now 0
          (isVehicleStopped pd) = Inr (st1, stopped1, lg)"
    by simp
  from e r nth vf u0 length_range_set [OF len] tp show ?thesis
    by simp
qed

text \<open>
  The held test module with the ego at arc-length 3/2, at 1 s: the points at arc-lengths
  2 and 3 are zeroed and the velocity factor reports distance 0.
\<close>

theorem C6_stopped_resolves_to_ego_witness:
  "state test_module_stopped = STOPPED \<and>
   stopped_time test_module_stopped = Some 0 \<and>
   build (test_geometry (3 / 2) (Some 5)) (points test_path) = Some \<lparr>bases = [0, 1, 2, 3], tpoints = points test_path\<rparr> \<and>
   3 / 2 = closest (test_geometry (3 / 2) (Some 5)) \<lparr>bases = [0, 1, 2, 3], tpoints = points test_path\<rparr> (position (current_odometry_pose (test_planner_data True))) \<and>
   getEgoAndStopPoint (test_geometry (3 / 2) (Some 5)) test_module_stopped (test_planner_data True) \<lparr>bases = [0, 1, 2, 3], tpoints = points test_path\<rparr>
       (current_odometry_pose (test_planner_data True)) (state test_module_stopped)
     = (3 / 2, Some (3 / 2)) \<and>
   (\<exists>r. modifyPathVelocity (test_geometry (3 / 2) (Some 5)) test_module_stopped (test_planner_data True) 1000000000
           test_path [] = Inr r \<and>
         points (path r) = [test_point 0 5, test_point 1 5, test_point 2 0, test_point 3 0] \<and>
         report (velocity_factor (self r)) = Some (0, VF_STOPPED))"
proof -
  have h4: "3 / 2 = closest (test_geometry (3 / 2) (Some 5)) \<lparr>bases = [0, 1, 2, 3], tpoints = points test_path\<rparr> (position (current_odometry_pose (test_planner_data True)))"
    by (simp add: test_geometry_sel)
  have z: "restore (range_set \<lparr>bases = [0, 1, 2, 3], tpoints = points test_path\<rparr> (3 / 2) (trajectory_length \<lparr>bases = [0, 1, 2, 3], tpoints = points test_path\<rparr>) 0)
             = [test_point 0 5, test_point 1 5, test_point 2 0, test_point 3 0]"
    by (simp add: restore_def range_set_def trajectory_length_def set_velocity_def test_path_def
        test_point_def)
  from C6_stopped_resolves_to_ego [OF test_module_sel(4) test_module_sel(5) build_test_path h4,
      of 1000000000 "[]"] z h4
  show ?thesis
    by (auto simp: test_module_sel build_test_path)
qed

subsection \<open>The stopped time\<close>

text \<open>
  Claim C7. The stopped time is present if and only if the state is \<open>STOPPED\<close>. The
  constructor gives \<open>APPROACH\<close> with no stopped time; every run of cycles from there
  returns a module in which the equivalence holds, and so does one more cycle, in which
  the stopped time is set to the clock value exactly when the state goes from \<open>APPROACH\<close>
  to \<open>STOPPED\<close>, cleared exactly when it goes from \<open>STOPPED\<close> to \<open>START\<close>, and kept
  otherwise.
\<close>

theorem C7_stopped_time_iff_stopped:
  "state (StopLineModule_new mid sl pp) = APPROACH \<and>
   stopped_time (StopLineModule_new mid sl pp) = None \<and>
   (\<exists>m. run g (StopLineModule_new mid sl pp) ins = Inr m \<and>
      (stopped_time m \<noteq> None) = (state m = STOPPED) \<and>
      (\<exists>r. cycle g m i = Inr r \<and>
         (stopped_time (self r) \<noteq> None) = (state (self r) = STOPPED) \<and>
         stopped_time (self r)
           = (if state m = APPROACH \<and> state (self r) = STOPPED then Some (clock_now i)
              else if state m = STOPPED \<and> state (self r) = START then None
              else stopped_time m)))"
proof -
  from reachable_inv [of g mid sl pp ins] obtain m where
    m: "run g (StopLineModule_new mid sl pp) ins = Inr m"
    and inv: "(stopped_time m \<noteq> None) = (state m = STOPPED)"
    by blast
  from inv have "stopped_time m = None \<longrightarrow> state m \<noteq> STOPPED"
    by blast
  from cycle_cases [OF this, of g i] obtain r where
    r: "cycle g m i = Inr r"
    and c: "(state (self r) = state m \<and> stopped_time (self r) = stopped_time m) \<or>
            (\<exists>d lg. updateStateAndStoppedTime (planner_param m) (state m) (stopped_time m)
                      (clock_now i) d (isVehicleStopped (planner_data i))
                    = Inr (state (self r), stopped_time (self r), lg))"
    by blast
  from c inv have inv1: "(stopped_time (self r) \<noteq> None) = (state (self r) = STOPPED)"
    by (auto dest: update_inv)
  from c have "stopped_time (self r)
           = (if state m = APPROACH \<and> state (self r) = STOPPED then Some (clock_now i)
              else if state m = STOPPED \<and> state (self r) = START then None
              else stopped_time m)"
  proof
    assume "state (self r) = state m \<and> stopped_time (self r) = stopped_time m"
    then show ?thesis by auto
  next
    assume "\<exists>d lg. updateStateAndStoppedTime (planner_param m) (state m) (stopped_time m)
                      (clock_now i) d (isVehicleStopped (planner_data i))
                    = Inr (state (self r), stopped_time (self r), lg)"
    then obtain d lg where "updateStateAndStoppedTime (planner_param m) (state m) (stopped_time m)
                      (clock_now i) d (isVehicleStopped (planner_data i))
                    = Inr (state (self r), stopped_time (self r), lg)"
      by blast
    from update_stopped_time [OF this] show ?thesis .
  qed
  with m inv r inv1 show ?thesis
    by (simp add: StopLineModule_new_def)
qed

text \<open>
  The test module: the first cycle stops it at time 0 and records that time; the cycle at
  2.5 s releases it and clears the time.
\<close>

theorem C7_stopped_time_iff_stopped_witness:
  "state test_module = APPROACH \<and>
   stopped_time test_module = None \<and>
   run (test_geometry (3 / 2) (Some 5)) test_module [test_input True 0] = Inr test_module_stopped \<and>
   state test_module_stopped = STOPPED \<and>
   stopped_time test_module_stopped = Some 0 \<and>
   (\<exists>r. cycle (test_geometry (3 / 2) (Some 5)) test_module_stopped (test_input True 2500000000) = Inr r \<and>
         state (self r) = START \<and> stopped_time (self r) = None)"
  using C7_stopped_time_iff_stopped [of 1
      "(\<lparr>px = 2, py = - 1, pz = 0\<rparr>, \<lparr>px = 2, py = 1, pz = 0\<rparr>)" test_param
      "test_geometry (3 / 2) (Some 5)" "[test_input True 0]" "test_input True 2500000000"]
    test_run_first test_cycle_release
  by (simp add: test_module_sel test_result_sel)

subsection \<open>The state machine\<close>

text \<open>
  Claim C8. The per-cycle state update is total and restricted: from \<open>APPROACH\<close> the
  next state is \<open>APPROACH\<close> or \<open>STOPPED\<close>, from \<open>STOPPED\<close> it is \<open>STOPPED\<close> or \<open>START\<close>,
  from \<open>START\<close> it is \<open>START\<close>, for every distance, vehicle-stopped flag and clock value.
  This holds of \<open>updateStateAndStoppedTime\<close> on every state in which the stopped time it
  reads is there, and of a whole cycle of every module that a run from the constructor
  reaches.
\<close>

theorem C8_state_update_total_restricted:
  "((st = STOPPED \<longrightarrow> stopped \<noteq> None) \<longrightarrow>
      (\<exists>st1 stopped1 lg.
         updateStateAndStoppedTime pp1 st stopped now d v = Inr (st1, stopped1, lg) \<and>
         (case st of
            APPROACH \<Rightarrow> st1 = APPROACH \<or> st1 = STOPPED
          | STOPPED \<Rightarrow> st1 = STOPPED \<or> st1 = START
          | START \<Rightarrow> st1 = START))) \<and>
   (run g (StopLineModule_new mid sl pp) ins = Inr m \<longrightarrow>
      (\<exists>r. cycle g m i = Inr r \<and>
         (case state m of
            APPROACH \<Rightarrow> state (self r) = APPROACH \<or> state (self r) = STOPPED
          | STOPPED \<Rightarrow> state (self r) = STOPPED \<or> state (self r) = START
          | START \<Rightarrow> state (self r) = START)))"
proof (intro conjI impI)
  assume "st = STOPPED \<longrightarrow> stopped \<noteq> None"
  from update_ok [OF this] obtain st1 stopped1 lg where
    u: "updateStateAndStoppedTime pp1 st stopped now d v = Inr (st1, stopped1, lg)"
    by blast
  from u update_next [OF u]
  show "\<exists>st1 stopped1 lg.
         updateStateAndStoppedTime pp1 st stopped now d v = Inr (st1, stopped1, lg) \<and>
         (case st of
            APPROACH \<Rightarrow> st1 = APPROACH \<or> st1 = STOPPED
          | STOPPED \<Rightarrow> st1 = STOPPED \<or> st1 = START
          | START \<Rightarrow> st1 = START)"
    by blast
next
  assume reach: "run g (StopLineModule_new mid sl pp) ins = Inr m"
  from reachable_inv [of g mid sl pp ins] reach
  have "stopped_time m = None \<longrightarrow> state m \<noteq> STOPPED"
    by auto
  from cycle_cases [OF this, of g i] obtain r where
    r: "cycle g m i = Inr r"
    and c: "(state (self r) = state m \<and> stopped_time (self r) = stopped_time m) \<or>
            (\<exists>d lg. updateStateAndStoppedTime (planner_param m) (state m) (stopped_time m)
                      (clock_now i) d (isVehicleStopped (planner_data i))
                    = Inr (state (self r), stopped_time (self r), lg))"
    by blast
  from c have "case state m of
            APPROACH \<Rightarrow> state (self r) = APPROACH \<or> state (self r) = STOPPED
          | STOPPED \<Rightarrow> state (self r) = STOPPED \<or> state (self r) = START
          | START \<Rightarrow> state (self r) = START"
  proof
    assume "state (self r) = state m \<and> stopped_time (self r) = stopped_time m"
    then show ?thesis
      by (cases "state m") simp_all
  next
    assume "\<exists>d lg. updateStateAndStoppedTime (planner_param m) (state m) (stopped_time m)
                      (clock_now i) d (isVehicleStopped (planner_data i))
                    = Inr (state (self r), stopped_time (self r), lg)"
    then show ?thesis
      by (auto dest: update_next)
  qed
  with r show "\<exists>r. cycle g m i = Inr r \<and>
         (case state m of
            APPROACH \<Rightarrow> state (self r) = APPROACH \<or> state (self r) = STOPPED
          | STOPPED \<Rightarrow> state (self r) = STOPPED \<or> state (self r) = START
          | START \<Rightarrow> state (self r) = START)"
    by blast
qed

text \<open>
  From \<open>STOPPED\<close> since time 0, at 2.5 s: the update returns, and the cycle of the module
  reached by the first test cycle ends in \<open>STOPPED\<close> or \<open>START\<close>.
\<close>

theorem C8_state_update_total_restricted_witness:
  "Some (0::int) \<noteq> None \<and>
   (\<exists>st1 stopped1 lg.
      updateStateAndStoppedTime test_param STOPPED (Some 0) 2500000000 0 True
        = Inr (st1, stopped1, lg) \<and> (st1 = STOPPED \<or> st1 = START)) \<and>
   run (test_geometry (3 / 2) (Some 5)) test_module [test_input True 0]
     = Inr test_module_stopped \<and>
   (\<exists>r. cycle (test_geometry (3 / 2) (Some 5)) test_module_stopped (test_input True 2500000000)
           = Inr r \<and>
         (state (self r) = STOPPED \<or> state (self r) = START))"
proof -
  have reach: "run (test_geometry (3 / 2) (Some 5))
                 (StopLineModule_new 1 (\<lparr>px = 2, py = - 1, pz = 0\<rparr>, \<lparr>px = 2, py = 1, pz = 0\<rparr>)
                    test_param)
                 [test_input True 0] = Inr test_module_stopped"
    using test_run_first by (simp add: test_module_def)
  from C8_state_update_total_restricted [of STOPPED "Some 0" test_param 2500000000 0 True
      "test_geometry (3 / 2) (Some 5)" 1 "(\<lparr>px = 2, py = - 1, pz = 0\<rparr>, \<lparr>px = 2, py = 1, pz = 0\<rparr>)"
      test_param "[test_input True 0]" test_module_stopped "test_input True 2500000000"]
    reach test_run_first
  show ?thesis
    by (simp add: test_module_sel)
qed

subsection \<open>A path that is no trajectory\<close>

text \<open>
  Claim C9. Trajectory construction fails exactly when the input path has fewer than 2
  points or its arc-length is not strictly increasing. The cycle is then a no-op: the
  output path is the input path, the module (its state, stopped time, velocity factor
  and debug record) and the stop-reason collection are unchanged, nothing is logged, and
  the call returns \<open>true\<close> as it does otherwise.
\<close>

theorem C9_malformed_path_is_noop:
  "(build g (points pth) = None)
     = (length (points pth) < 2 \<or> \<not> sorted_wrt (<) (arc_lengths g 0 (points pth))) \<and>
   (build g (points pth) = None \<longrightarrow>
      modifyPathVelocity g m pd now pth sr
        = Inr \<lparr>ret = True, self = m, path = pth, stop_reason = sr, logged = []\<rparr>)"
  by (simp add: build_None_iff modify_build_fails)

text \<open>A path of one point, and a path of two points at the same position.\<close>

theorem C9_malformed_path_is_noop_witness:
  "build (test_geometry (3 / 2) (Some 5)) (points \<lparr>points = [test_point 0 5]\<rparr>) = None \<and>
   modifyPathVelocity (test_geometry (3 / 2) (Some 5)) test_module_stopped (test_planner_data True) 2500000000
       \<lparr>points = [test_point 0 5]\<rparr> []
     = Inr \<lparr>ret = True, self = test_module_stopped, path = \<lparr>points = [test_point 0 5]\<rparr>,
            stop_reason = [], logged = []\<rparr> \<and>
   build (test_geometry (3 / 2) (Some 5)) (points \<lparr>points = [test_point 1 5, test_point 1 5]\<rparr>) = None \<and>
   modifyPathVelocity (test_geometry (3 / 2) (Some 5)) test_module_stopped (test_planner_data True) 2500000000
       \<lparr>points = [test_point 1 5, test_point 1 5]\<rparr> []
     = Inr \<lparr>ret = True, self = test_module_stopped,
            path = \<lparr>points = [test_point 1 5, test_point 1 5]\<rparr>,
            stop_reason = [], logged = []\<rparr>"
  using C9_malformed_path_is_noop [of "test_geometry (3 / 2) (Some 5)" "\<lparr>points = [test_point 0 5]\<rparr>"
      test_module_stopped "test_planner_data True" 2500000000 "[]"]
    C9_malformed_path_is_noop [of "test_geometry (3 / 2) (Some 5)" "\<lparr>points = [test_point 1 5, test_point 1 5]\<rparr>"
      test_module_stopped "test_planner_data True" 2500000000 "[]"]
  by (simp add: test_geometry_sel test_point_def test_pose_def)

subsection \<open>The unchecked dereference\<close>

text \<open>
  Claim C10. The branch of \<open>STOPPED\<close> in \<open>updateStateAndStoppedTime\<close> dereferences the
  stopped time without a check: in the model the call is an error exactly when the state
  is \<open>STOPPED\<close> and the stopped time is absent. Every run of cycles from the constructor
  returns a module in which the stopped time is present if the state is \<open>STOPPED\<close>, so
  that the call is no error for any clock value, distance and flag, and the next cycle
  returns as well.
\<close>

theorem C10_stopped_time_dereference_safe:
  "(updateStateAndStoppedTime pp1 st stopped now d v = Inl EmptyOptionalAccess)
     = (st = STOPPED \<and> stopped = None) \<and>
   (\<exists>m. run g (StopLineModule_new mid sl pp) ins = Inr m \<and>
      (state m = STOPPED \<longrightarrow> (\<exists>t0. stopped_time m = Some t0)) \<and>
      updateStateAndStoppedTime (planner_param m) (state m) (stopped_time m) now d v
        \<noteq> Inl EmptyOptionalAccess \<and>
      (\<exists>r. cycle g m i = Inr r))"
proof -
  have a: "(updateStateAndStoppedTime pp1 st stopped now d v = Inl EmptyOptionalAccess)
     = (st = STOPPED \<and> stopped = None)"
    by (cases st) (auto simp: Let_def split: option.splits)
  from reachable_inv [of g mid sl pp ins] obtain m where
    m: "run g (StopLineModule_new mid sl pp) ins = Inr m"
    and inv: "(stopped_time m \<noteq> None) = (state m = STOPPED)"
    by blast
  from inv have s: "state m = STOPPED \<longrightarrow> stopped_time m \<noteq> None"
    by blast
  from update_ok [OF s, of "planner_param m" now d v]
  have b: "updateStateAndStoppedTime (planner_param m) (state m) (stopped_time m) now d v
        \<noteq> Inl EmptyOptionalAccess"
    by auto
  from cycle_inv [OF inv, of g i] have c: "\<exists>r. cycle g m i = Inr r"
    by blast
  from a m s b c show ?thesis
    by auto
qed

text \<open>
  The call is an error on \<open>STOPPED\<close> without a stopped time; the module reached by the
  first test cycle has its stopped time, and its update and next cycle return.
\<close>

theorem C10_stopped_time_dereference_safe_witness:
  "updateStateAndStoppedTime test_param STOPPED None 1000000000 0 True
     = Inl EmptyOptionalAccess \<and>
   run (test_geometry (3 / 2) (Some 5)) test_module [test_input True 0] = Inr test_module_stopped \<and>
   stopped_time test_module_stopped = Some 0 \<and>
   updateStateAndStoppedTime (planner_param test_module_stopped) (state test_module_stopped)
       (stopped_time test_module_stopped) 1000000000 0 True
     \<noteq> Inl EmptyOptionalAccess \<and>
   (\<exists>r. cycle (test_geometry (3 / 2) (Some 5)) test_module_stopped (test_input True 1000000000) = Inr r)"
  using C10_stopped_time_dereference_safe [of test_param STOPPED None 1000000000 0 True
      "test_geometry (3 / 2) (Some 5)" 1
      "(\<lparr>px = 2, py = - 1, pz = 0\<rparr>, \<lparr>px = 2, py = 1, pz = 0\<rparr>)" test_param
      "[test_input True 0]" "test_input True 1000000000"]
    test_run_first
  by (simp add: test_module_sel test_module_def)

end
